theory Spec2Isabelle
  imports Complex_Main
begin

section \<open>Python values shared by both programs\<close>

text \<open>
  A Python exception is a value: its class name and its message (what \<open>str(e)\<close> prints).
  A call either returns, raises, or never returns; the third case matters because
  \<open>run_security_scans\<close> waits on its futures without any timeout.
\<close>

datatype exn = Exn (exc_class: string) (exc_msg: string)

datatype 'a outcome = Returned 'a | Raised exn | Hung

text \<open>\<open>str.split(sep)\<close> for a one-character separator: never an empty list.\<close>

fun split_char :: "char \<Rightarrow> string \<Rightarrow> string list" where
  "split_char c [] = [[]]"
| "split_char c (x # xs) =
     (if x = c then [] # split_char c xs
      else (case split_char c xs of
              w # ws \<Rightarrow> (x # w) # ws
            | [] \<Rightarrow> [[x]]))"

text \<open>\<open>os.path.join(a, b)\<close> on POSIX, for two components.\<close>

definition path_join :: "string \<Rightarrow> string \<Rightarrow> string" where
  "path_join a b =
     (if b \<noteq> [] \<and> hd b = CHR ''/'' then b
      else if a = [] \<or> last a = CHR ''/'' then a @ b
      else a @ ''/'' @ b)"

section \<open>container\_analyzer.py: data classes\<close>

text \<open>
  The five-value severity scale and the vulnerability record follow section 3 of the
  specification; the source types a vulnerability as a bare \<open>Dict\<close>.
\<close>

datatype severity = Critical | High | Medium | Low | Unknown

record VulnerabilityRecord =
  vuln_identifier :: string
  vuln_severity :: severity
  vuln_fields :: "(string \<times> string) list"

text \<open>Timestamps are instants, read from a clock: integers here.\<close>

record ScanResult =
  tool_name :: string
  image_name :: string
  vulnerabilities :: "VulnerabilityRecord list"
  metadata :: "(string \<times> string) list"
  timestamp :: int

section \<open>container\_analyzer.py: the analyzer object\<close>

text \<open>
  The configuration dictionary, restricted to the keys the code reads. Each
  \<open>*_enabled\<close> field is the truth value of
  \<open>self.config.get(section, {}).get("enabled")\<close>.
\<close>

record config =
  max_workers :: int
  export_formats :: "string list"
  runtime_analysis_enabled :: bool
  network_scan_enabled :: bool
  compliance_enabled :: bool
  notification_enabled :: bool

record analyzer =
  image :: string
  slim_image :: string
  distroless_image :: string
  results_dir :: string
  images_dir :: string
  config :: config

text \<open>
  The parsed command line: \<open>args\<close> is \<open>None\<close> or a namespace whose \<open>image\<close>
  attribute is \<open>None\<close> or a string.
\<close>

record args =
  arg_image :: "string option"

text \<open>
  \<open>setup_base_configuration\<close> (lines 165-181). \<open>load_config\<close> is not part of the
  source file; the dictionary it returns is the parameter \<open>cfg\<close>.
\<close>

definition setup_base_configuration :: "args option \<Rightarrow> config \<Rightarrow> analyzer" where
  "setup_base_configuration a cfg =
     (let img = (case a of
                   None \<Rightarrow> ''nginx:latest''
                 | Some ns \<Rightarrow>
                     (case arg_image ns of
                        None \<Rightarrow> ''nginx:latest''
                      | Some i \<Rightarrow> if i = [] then ''nginx:latest'' else i))
      in \<lparr>image = img,
          slim_image = hd (split_char CHR '':'' img) @ ''-slim:latest'',
          distroless_image = hd (split_char CHR '':'' img) @ ''-distroless:latest'',
          results_dir = ''scan_results'',
          images_dir = ''saved_images'',
          config = cfg\<rparr>)"

section \<open>container\_analyzer.py: the scan coordinator\<close>

text \<open>
  The methods the source file elides (\<open>[Previous methods remain the same]\<close>) are
  parameters: each gives, for its explicit arguments and the analyzed image, the value
  it returns, the exception it raises, or \<open>Hung\<close>. What such a method does is taken
  to depend on nothing else. Values other than scan results are of an arbitrary type
  \<open>'v\<close>; in the dictionary that \<open>locals()\<close> returns, \<open>LSelf\<close> is the reference to the
  analyzer itself.
\<close>

datatype 'v local = LSelf | LScans "ScanResult list" | LVal 'v

type_synonym 'v locals = "(string \<times> 'v local) list"

record 'v methods =
  pull_image :: "string \<Rightarrow> unit outcome"
  scan_with :: "string \<Rightarrow> string \<Rightarrow> string \<Rightarrow> ScanResult outcome"
  generate_sbom :: "string \<Rightarrow> 'v outcome"
  run_falco_analysis :: "string \<Rightarrow> 'v outcome"
  scan_network_vulnerabilities :: "string \<Rightarrow> 'v outcome"
  run_compliance_checks :: "string \<Rightarrow> 'v outcome"
  export_results :: "'v locals \<Rightarrow> string \<Rightarrow> unit outcome"
  send_notifications :: "'v locals \<Rightarrow> unit outcome"

text \<open>What a run does, in order: log lines, calls, and submissions to the pool.\<close>

datatype 'v event =
    Log_info string
  | Log_error string
  | Call_pull_image string
  | Submit string string string
  | Call_generate_sbom string
  | Call_run_falco_analysis string
  | Call_scan_network_vulnerabilities string
  | Call_run_compliance_checks string
  | Call_export_results "'v locals" string
  | Call_send_notifications "'v locals"

text \<open>
  A computation is the list of events it performed and how it ended. \<open>bind\<close> is
  sequencing: the second statement runs only if the first returned.
\<close>

type_synonym ('e, 'a) comp = "'e list \<times> 'a outcome"

definition ret :: "'a \<Rightarrow> ('e, 'a) comp" where
  "ret x = ([], Returned x)"

definition call :: "'e \<Rightarrow> 'a outcome \<Rightarrow> ('e, 'a) comp" where
  "call ev r = ([ev], r)"

definition bind :: "('e, 'a) comp \<Rightarrow> ('a \<Rightarrow> ('e, 'b) comp) \<Rightarrow> ('e, 'b) comp" where
  "bind m f =
     (case m of
        (t, Returned x) \<Rightarrow> (case f x of (t', r) \<Rightarrow> (t @ t', r))
      | (t, Raised e) \<Rightarrow> (t, Raised e)
      | (t, Hung) \<Rightarrow> (t, Hung))"

definition scanners :: "string list" where
  "scanners = [''dive'', ''trivy'', ''grype'']"

definition output_path :: "analyzer \<Rightarrow> string \<Rightarrow> string" where
  "output_path self scanner = path_join (results_dir self) (scanner @ ''_results.json'')"

text \<open>The three futures, in submission order: what each adapter does once it runs.\<close>

definition futures :: "'v methods \<Rightarrow> analyzer \<Rightarrow> ScanResult outcome list" where
  "futures M self =
     map (\<lambda>scanner. scan_with M scanner (image self) (output_path self scanner)) scanners"

text \<open>
  \<open>[f.result() for f in futures]\<close>: the results are taken in submission order; the
  first future that raised re-raises there, and one that never resolves blocks.
\<close>

fun gather :: "'a outcome list \<Rightarrow> 'a list outcome" where
  "gather [] = Returned []"
| "gather (Returned x # fs) =
     (case gather fs of
        Returned xs \<Rightarrow> Returned (x # xs)
      | Raised e \<Rightarrow> Raised e
      | Hung \<Rightarrow> Hung)"
| "gather (Raised e # fs) = Raised e"
| "gather (Hung # fs) = Hung"

text \<open>
  Leaving the \<open>with\<close> block shuts the pool down with \<open>wait=True\<close>: the block is left,
  by return or by exception, only once every submitted future has resolved.
\<close>

definition pool_exit :: "'a outcome list \<Rightarrow> 'b outcome \<Rightarrow> 'b outcome" where
  "pool_exit fs r = (if Hung \<in> set fs then Hung else r)"

text \<open>
  \<open>run_security_scans\<close> (lines 309-329). \<open>ThreadPoolExecutor(max_workers=n)\<close> raises
  \<open>ValueError\<close> for \<open>n <= 0\<close>, before the loop that submits.
\<close>

definition run_security_scans ::
  "'v methods \<Rightarrow> analyzer \<Rightarrow> ('v event, ScanResult list) comp" where
  "run_security_scans M self =
     (if max_workers (config self) \<le> 0
      then ([], Raised (Exn ''ValueError'' ''max_workers must be greater than 0''))
      else (map (\<lambda>scanner. Submit scanner (image self) (output_path self scanner)) scanners,
            pool_exit (futures M self) (gather (futures M self))))"

section \<open>container\_analyzer.py: the analysis workflow\<close>

text \<open>
  One optional phase of \<open>run_analysis\<close>: \<open>if flag: name = method(self.image)\<close>. It
  yields the local variable it binds, if any.
\<close>

definition optional_phase ::
  "bool \<Rightarrow> string \<Rightarrow> 'v event \<Rightarrow> 'v outcome \<Rightarrow> ('v event, 'v locals) comp" where
  "optional_phase enabled name ev r =
     (if enabled then bind (call ev r) (\<lambda>v. ret [(name, LVal v)]) else ret [])"

text \<open>
  Lines 253-279 of \<open>run_analysis\<close>: the phases that come before the reports. The value
  is \<open>locals()\<close> as it stands at line 285: \<open>self\<close> and every variable bound so far, in
  the order the function declares them.
\<close>

definition analysis_phases :: "'v methods \<Rightarrow> analyzer \<Rightarrow> ('v event, 'v locals) comp" where
  "analysis_phases M self =
     bind (call (Call_pull_image (image self)) (pull_image M (image self))) (\<lambda>_.
     bind (run_security_scans M self) (\<lambda>security_results.
     bind (call (Call_generate_sbom (image self)) (generate_sbom M (image self))) (\<lambda>sbom_data.
     bind (optional_phase (runtime_analysis_enabled (config self)) ''runtime_results''
             (Call_run_falco_analysis (image self)) (run_falco_analysis M (image self))) (\<lambda>l1.
     bind (optional_phase (network_scan_enabled (config self)) ''network_results''
             (Call_scan_network_vulnerabilities (image self))
             (scan_network_vulnerabilities M (image self))) (\<lambda>l2.
     bind (optional_phase (compliance_enabled (config self)) ''compliance_results''
             (Call_run_compliance_checks (image self))
             (run_compliance_checks M (image self))) (\<lambda>l3.
     ret ([(''self'', LSelf),
           (''security_results'', LScans security_results),
           (''sbom_data'', LVal sbom_data)] @ l1 @ l2 @ l3)))))))"

text \<open>\<open>generate_reports\<close> (lines 333-339): one export per configured format, in order.\<close>

fun generate_reports_loop ::
  "'v methods \<Rightarrow> 'v locals \<Rightarrow> string list \<Rightarrow> ('v event, unit) comp" where
  "generate_reports_loop M results [] = ret ()"
| "generate_reports_loop M results (format_type # rest) =
     bind (call (Call_export_results results format_type)
             (export_results M results format_type))
       (\<lambda>_. generate_reports_loop M results rest)"

definition generate_reports ::
  "'v methods \<Rightarrow> analyzer \<Rightarrow> 'v locals \<Rightarrow> ('v event, unit) comp" where
  "generate_reports M self results =
     generate_reports_loop M results (export_formats (config self))"

text \<open>
  \<open>except Exception as e: self.logger.error(...); raise\<close> (lines 301-305): the failure
  is logged and raised again.
\<close>

definition log_and_reraise :: "('v event, 'a) comp \<Rightarrow> ('v event, 'a) comp" where
  "log_and_reraise m =
     (case m of
        (t, Raised e) \<Rightarrow> (t @ [Log_error (''Analysis failed: '' @ exc_msg e)], Raised e)
      | (t, Returned x) \<Rightarrow> (t, Returned x)
      | (t, Hung) \<Rightarrow> (t, Hung))"

text \<open>\<open>run_analysis\<close> (lines 241-305).\<close>

definition run_analysis :: "'v methods \<Rightarrow> analyzer \<Rightarrow> ('v event, unit) comp" where
  "run_analysis M self =
     log_and_reraise
       (bind (call (Log_info (''Starting analysis for image: '' @ image self)) (Returned ())) (\<lambda>_.
        bind (analysis_phases M self) (\<lambda>results.
        bind (generate_reports M self results) (\<lambda>_.
        bind (if notification_enabled (config self)
              then call (Call_send_notifications results) (send_notifications M results)
              else ret ()) (\<lambda>_.
        call (Log_info ''Analysis completed successfully'') (Returned ()))))))"

section \<open>java-runtime-dependency-analyzer.py\<close>














section \<open>Parts of the design that the source file does not contain\<close>

text \<open>
  The data class \<open>ComplianceResult\<close> (lines 85-99). The source declares \<open>score\<close> a
  float and never computes it; here it is an exact rational, or \<open>None\<close> where no number
  is available.
\<close>

record ComplianceResult =
  framework :: string
  checks :: "(string \<times> string) list list"
  score :: "rat option"
  passed_rules :: int
  total_rules :: int
  compliance_timestamp :: int

text \<open>
  Modelled from the spec: the construction of a \<open>ComplianceResult\<close> from the rule counts.
  The function that builds it, \<open>run_compliance_checks\<close>, is among the elided methods;
  section 3 of the specification gives the score as \<open>passed_rules / total_rules\<close> when
  \<open>total_rules > 0\<close> and as not available when \<open>total_rules == 0\<close>.
\<close>

definition compliance_result ::
  "string \<Rightarrow> (string \<times> string) list list \<Rightarrow> int \<Rightarrow> int \<Rightarrow> int \<Rightarrow> ComplianceResult" where
  "compliance_result fw cs n_passed n_total now =
     \<lparr>framework = fw,
      checks = cs,
      score = (if n_total > 0 then Some (of_int n_passed / of_int n_total) else None),
      passed_rules = n_passed,
      total_rules = n_total,
      compliance_timestamp = now\<rparr>"












section \<open>Vocabulary of the properties\<close>

text \<open>The exception of the first future, in submission order, that raised.\<close>

fun first_raised :: "'a outcome list \<Rightarrow> exn option" where
  "first_raised [] = None"
| "first_raised (Raised e # fs) = Some e"
| "first_raised (Returned x # fs) = first_raised fs"
| "first_raised (Hung # fs) = first_raised fs"

text \<open>Events that start a scanner, and events that write a report.\<close>

fun is_submit :: "'v event \<Rightarrow> bool" where
  "is_submit (Submit s i p) = True"
| "is_submit ev = False"

fun is_export :: "'v event \<Rightarrow> bool" where
  "is_export (Call_export_results r f) = True"
| "is_export ev = False"




section \<open>Example inputs\<close>

definition example_config :: config where
  "example_config =
     \<lparr>max_workers = 3,
      export_formats = [''json'', ''html''],
      runtime_analysis_enabled = True,
      network_scan_enabled = True,
      compliance_enabled = True,
      notification_enabled = True\<rparr>"

definition example_analyzer :: analyzer where
  "example_analyzer = setup_base_configuration None example_config"

definition example_result :: "string \<Rightarrow> string \<Rightarrow> ScanResult" where
  "example_result tool img =
     \<lparr>tool_name = tool, image_name = img, vulnerabilities = [], metadata = [], timestamp = 0\<rparr>"

text \<open>Every elided method returns.\<close>

definition healthy :: "string methods" where
  "healthy =
     \<lparr>pull_image = (\<lambda>img. Returned ()),
      scan_with = (\<lambda>scanner img path. Returned (example_result scanner img)),
      generate_sbom = (\<lambda>img. Returned ''sbom''),
      run_falco_analysis = (\<lambda>img. Returned ''falco''),
      scan_network_vulnerabilities = (\<lambda>img. Returned ''network''),
      run_compliance_checks = (\<lambda>img. Returned ''compliance''),
      export_results = (\<lambda>results format_type. Returned ()),
      send_notifications = (\<lambda>results. Returned ())\<rparr>"

text \<open>The same, except that the trivy scan raises.\<close>

definition trivy_fails :: "string methods" where
  "trivy_fails =
     healthy\<lparr>scan_with :=
       (\<lambda>scanner img path.
          if scanner = ''trivy'' then Raised (Exn ''RuntimeError'' ''trivy exited with status 1'')
          else Returned (example_result scanner img))\<rparr>"





section \<open>Properties\<close>

lemma split_char_nonempty: "split_char c s \<noteq> []"
  by (induction s) (auto split: list.splits)

lemma hd_split_char: "hd (split_char c s) = takeWhile (\<lambda>x. x \<noteq> c) s"
proof (induction s)
  case Nil
  show ?case by simp
next
  case (Cons x xs)
  then show ?case
    using split_char_nonempty [of c xs] by (cases "split_char c xs") auto
qed

subsection \<open>The futures of the pool\<close>

lemma gather_map_Returned: "gather (map Returned rs) = Returned rs"
  by (induction rs) auto

lemma gather_first_raised:
  "Hung \<notin> set fs \<Longrightarrow> first_raised fs = Some e \<Longrightarrow> gather fs = Raised e"
  by (induction fs rule: gather.induct) (auto split: outcome.splits)

lemma first_raised_None:
  "Hung \<notin> set fs \<Longrightarrow> first_raised fs = None \<Longrightarrow> \<exists>rs. fs = map Returned rs"
proof (induction fs rule: first_raised.induct)
  case 1
  show ?case by simp
next
  case (2 e fs)
  then show ?case by simp
next
  case (3 x fs)
  then obtain rs where "fs = map Returned rs" by auto
  then have "Returned x # fs = map Returned (x # rs)" by simp
  then show ?case by (rule exI)
next
  case (4 fs)
  then show ?case by simp
qed

lemma first_raised_map_Returned: "first_raised (map Returned rs) = None"
  by (induction rs) auto

lemma first_raised_Some_mem: "first_raised fs = Some e \<Longrightarrow> Raised e \<in> set fs"
  by (induction fs rule: first_raised.induct) auto

lemma Hung_notin_map_Returned: "Hung \<notin> set (map Returned rs)"
  by (induction rs) auto

lemma length_futures: "length (futures M self) = 3"
  by (simp add: futures_def scanners_def)

subsection \<open>The base configuration\<close>

text \<open>
  C9. When \<open>args\<close> is \<open>None\<close>, or its \<open>image\<close> is \<open>None\<close> or the empty string, the analyzed
  image is \<open>nginx:latest\<close>. For every image, \<open>slim_image\<close> is the text before the first
  colon followed by \<open>-slim:latest\<close>, and \<open>distroless_image\<close> is the same prefix followed
  by \<open>-distroless:latest\<close>.
\<close>

theorem default_image_and_derived_names:
  "((a = None \<or> (\<exists>ns. a = Some ns \<and> (arg_image ns = None \<or> arg_image ns = Some [])))
      \<longrightarrow> image (setup_base_configuration a cfg) = ''nginx:latest'')
   \<and> (\<forall>ns i. a = Some ns \<and> arg_image ns = Some i \<and> i \<noteq> []
      \<longrightarrow> image (setup_base_configuration a cfg) = i)
   \<and> slim_image (setup_base_configuration a cfg) =
       takeWhile (\<lambda>c. c \<noteq> CHR '':'') (image (setup_base_configuration a cfg)) @ ''-slim:latest''
   \<and> distroless_image (setup_base_configuration a cfg) =
       takeWhile (\<lambda>c. c \<noteq> CHR '':'') (image (setup_base_configuration a cfg))
         @ ''-distroless:latest''"
  by (auto simp: setup_base_configuration_def Let_def hd_split_char split: option.splits)

theorem default_image_and_derived_names_witness:
  "image (setup_base_configuration None example_config) = ''nginx:latest''
   \<and> image (setup_base_configuration (Some \<lparr>arg_image = Some ''registry:5000/app:1.2''\<rparr>)
        example_config) = ''registry:5000/app:1.2''
   \<and> slim_image (setup_base_configuration (Some \<lparr>arg_image = Some ''registry:5000/app:1.2''\<rparr>)
        example_config) = ''registry-slim:latest''
   \<and> distroless_image (setup_base_configuration None example_config)
        = ''nginx-distroless:latest''"
  using default_image_and_derived_names [of None example_config]
    default_image_and_derived_names
      [of "Some \<lparr>arg_image = Some ''registry:5000/app:1.2''\<rparr>" example_config]
  by simp

subsection \<open>The scan coordinator\<close>

text \<open>
  C8, as the code has it. The three scanners are fixed in the code and submitted in the order
  dive, trivy, grype whenever the pool can be created, that is for \<open>max_workers > 0\<close>; when
  all three return, their results come back in that order.
\<close>

theorem fixed_scanners_in_submission_order:
  assumes "0 < max_workers (config self)"
  shows "fst (run_security_scans M self) =
      [Submit ''dive'' (image self) (output_path self ''dive''),
       Submit ''trivy'' (image self) (output_path self ''trivy''),
       Submit ''grype'' (image self) (output_path self ''grype'')]
    \<and> (\<forall>d t g.
          scan_with M ''dive'' (image self) (output_path self ''dive'') = Returned d
        \<and> scan_with M ''trivy'' (image self) (output_path self ''trivy'') = Returned t
        \<and> scan_with M ''grype'' (image self) (output_path self ''grype'') = Returned g
        \<longrightarrow> snd (run_security_scans M self) = Returned [d, t, g])"
  using assms
  by (simp add: run_security_scans_def scanners_def futures_def pool_exit_def)

theorem fixed_scanners_in_submission_order_witness:
  "0 < max_workers (config example_analyzer)
   \<and> fst (run_security_scans healthy example_analyzer) =
      [Submit ''dive'' ''nginx:latest'' ''scan_results/dive_results.json'',
       Submit ''trivy'' ''nginx:latest'' ''scan_results/trivy_results.json'',
       Submit ''grype'' ''nginx:latest'' ''scan_results/grype_results.json'']
   \<and> snd (run_security_scans healthy example_analyzer) =
      Returned [example_result ''dive'' ''nginx:latest'',
                example_result ''trivy'' ''nginx:latest'',
                example_result ''grype'' ''nginx:latest'']"
proof -
  have h: "0 < max_workers (config example_analyzer)"
    by (simp add: example_analyzer_def example_config_def setup_base_configuration_def)
  show ?thesis
    using h fixed_scanners_in_submission_order [OF h, of healthy]
    by (simp add: example_analyzer_def setup_base_configuration_def output_path_def
        path_join_def healthy_def)
qed

text \<open>
  C8 as stated (every run submits the three scanners) fails for a run whose
  \<open>max_workers\<close> is 0: the pool is never created and nothing is submitted.
\<close>

theorem no_submission_without_workers:
  "fst (run_security_scans healthy
          (example_analyzer\<lparr>config := example_config\<lparr>max_workers := 0\<rparr>\<rparr>)) = []"
  by (simp add: run_security_scans_def example_config_def)

text \<open>
  C1, as the code has it. With \<open>max_workers > 0\<close> all three adapters are submitted. If one
  of them never resolves, the call never returns: there is no timeout. If all resolve and
  none raised, the call returns exactly three results, in submission order. If all resolve
  and at least one raised, the call raises the exception of the first such adapter in
  submission order and returns no entry at all.
\<close>

theorem scans_all_or_nothing:
  assumes "0 < max_workers (config self)"
  shows "fst (run_security_scans M self) =
           map (\<lambda>s. Submit s (image self) (output_path self s)) scanners
    \<and> length (futures M self) = 3
    \<and> (Hung \<in> set (futures M self) \<longrightarrow> snd (run_security_scans M self) = Hung)
    \<and> (Hung \<notin> set (futures M self) \<and> first_raised (futures M self) = None \<longrightarrow>
         (\<exists>rs. snd (run_security_scans M self) = Returned rs
             \<and> futures M self = map Returned rs \<and> length rs = 3))
    \<and> (\<forall>e. Hung \<notin> set (futures M self) \<and> first_raised (futures M self) = Some e \<longrightarrow>
         snd (run_security_scans M self) = Raised e \<and> Raised e \<in> set (futures M self))"
proof (intro conjI allI impI)
  show "fst (run_security_scans M self) =
           map (\<lambda>s. Submit s (image self) (output_path self s)) scanners"
    using assms by (simp add: run_security_scans_def)
  show "length (futures M self) = 3" by (rule length_futures)
  show "snd (run_security_scans M self) = Hung" if "Hung \<in> set (futures M self)"
    using assms that by (simp add: run_security_scans_def pool_exit_def)
next
  assume a: "Hung \<notin> set (futures M self) \<and> first_raised (futures M self) = None"
  then obtain rs where rs: "futures M self = map Returned rs"
    using first_raised_None by blast
  have "length rs = 3" using length_futures [of M self] rs by simp
  moreover have "snd (run_security_scans M self) = Returned rs"
    using assms a rs by (simp add: run_security_scans_def pool_exit_def gather_map_Returned)
  ultimately show "\<exists>rs. snd (run_security_scans M self) = Returned rs
             \<and> futures M self = map Returned rs \<and> length rs = 3"
    using rs by blast
next
  fix e
  assume a: "Hung \<notin> set (futures M self) \<and> first_raised (futures M self) = Some e"
  then show "snd (run_security_scans M self) = Raised e"
    using assms by (simp add: run_security_scans_def pool_exit_def gather_first_raised)
  show "Raised e \<in> set (futures M self)"
    using a first_raised_Some_mem by blast
qed

theorem scans_all_or_nothing_witness:
  "0 < max_workers (config example_analyzer)
   \<and> (\<exists>rs. snd (run_security_scans healthy example_analyzer) = Returned rs \<and> length rs = 3)
   \<and> snd (run_security_scans trivy_fails example_analyzer) =
       Raised (Exn ''RuntimeError'' ''trivy exited with status 1'')"
proof -
  have h: "0 < max_workers (config example_analyzer)"
    by (simp add: example_analyzer_def example_config_def setup_base_configuration_def)
  have ok: "Hung \<notin> set (futures healthy example_analyzer)
      \<and> first_raised (futures healthy example_analyzer) = None"
    by (simp add: futures_def scanners_def healthy_def)
  have bad: "Hung \<notin> set (futures trivy_fails example_analyzer)
      \<and> first_raised (futures trivy_fails example_analyzer) =
          Some (Exn ''RuntimeError'' ''trivy exited with status 1'')"
    by (simp add: futures_def scanners_def trivy_fails_def healthy_def)
  from scans_all_or_nothing [OF h, of healthy] ok
  have "\<exists>rs. snd (run_security_scans healthy example_analyzer) = Returned rs \<and> length rs = 3"
    by blast
  moreover from scans_all_or_nothing [OF h, of trivy_fails] bad
  have "snd (run_security_scans trivy_fails example_analyzer) =
       Raised (Exn ''RuntimeError'' ''trivy exited with status 1'')"
    by blast
  ultimately show ?thesis using h by blast
qed

text \<open>
  C1 as stated fails when one adapter raises: with three adapters of which trivy fails, the
  call does not yield three entries with two successes. It raises, and the results of dive
  and grype, which both returned, are lost.
\<close>

theorem one_failure_discards_all_results:
  "futures trivy_fails example_analyzer =
     [Returned (example_result ''dive'' ''nginx:latest''),
      Raised (Exn ''RuntimeError'' ''trivy exited with status 1''),
      Returned (example_result ''grype'' ''nginx:latest'')]
   \<and> 0 < max_workers (config example_analyzer)
   \<and> snd (run_security_scans trivy_fails example_analyzer) =
       Raised (Exn ''RuntimeError'' ''trivy exited with status 1'')"
  by (simp add: run_security_scans_def futures_def scanners_def trivy_fails_def healthy_def
      example_analyzer_def setup_base_configuration_def example_config_def pool_exit_def)

text \<open>
  C3, as the code has it. For \<open>max_workers <= 0\<close> creating the pool raises Python's
  \<open>ValueError\<close> before anything is submitted; no run event starts a scanner or writes a
  report, and a run whose image pull returned ends with that \<open>ValueError\<close>, logged and
  raised again. The code defines no \<open>ConfigurationError\<close>.
\<close>

theorem nonpositive_max_workers_rejected:
  assumes "max_workers (config self) \<le> 0"
  shows "run_security_scans M self =
           ([], Raised (Exn ''ValueError'' ''max_workers must be greater than 0''))
    \<and> (\<forall>ev \<in> set (fst (run_analysis M self)). \<not> is_submit ev \<and> \<not> is_export ev)
    \<and> (pull_image M (image self) = Returned () \<longrightarrow>
         run_analysis M self =
           ([Log_info (''Starting analysis for image: '' @ image self),
             Call_pull_image (image self),
             Log_error ''Analysis failed: max_workers must be greater than 0''],
            Raised (Exn ''ValueError'' ''max_workers must be greater than 0'')))"
proof -
  have scans: "run_security_scans M self =
           ([], Raised (Exn ''ValueError'' ''max_workers must be greater than 0''))"
    using assms by (simp add: run_security_scans_def)
  have run: "run_analysis M self =
      (case pull_image M (image self) of
         Returned u \<Rightarrow>
           ([Log_info (''Starting analysis for image: '' @ image self),
             Call_pull_image (image self),
             Log_error ''Analysis failed: max_workers must be greater than 0''],
            Raised (Exn ''ValueError'' ''max_workers must be greater than 0''))
       | Raised e \<Rightarrow>
           ([Log_info (''Starting analysis for image: '' @ image self),
             Call_pull_image (image self),
             Log_error (''Analysis failed: '' @ exc_msg e)], Raised e)
       | Hung \<Rightarrow>
           ([Log_info (''Starting analysis for image: '' @ image self),
             Call_pull_image (image self)], Hung))"
    by (simp add: run_analysis_def analysis_phases_def scans bind_def call_def
        log_and_reraise_def split: outcome.splits)
  have "\<forall>ev \<in> set (fst (run_analysis M self)). \<not> is_submit ev \<and> \<not> is_export ev"
    by (simp add: run split: outcome.splits)
  moreover have "pull_image M (image self) = Returned () \<longrightarrow>
         run_analysis M self =
           ([Log_info (''Starting analysis for image: '' @ image self),
             Call_pull_image (image self),
             Log_error ''Analysis failed: max_workers must be greater than 0''],
            Raised (Exn ''ValueError'' ''max_workers must be greater than 0''))"
    by (simp add: run)
  ultimately show ?thesis using scans by blast
qed

theorem nonpositive_max_workers_rejected_witness:
  "max_workers (config (example_analyzer\<lparr>config := example_config\<lparr>max_workers := 0\<rparr>\<rparr>)) \<le> 0
   \<and> run_analysis healthy (example_analyzer\<lparr>config := example_config\<lparr>max_workers := 0\<rparr>\<rparr>) =
       ([Log_info ''Starting analysis for image: nginx:latest'',
         Call_pull_image ''nginx:latest'',
         Log_error ''Analysis failed: max_workers must be greater than 0''],
        Raised (Exn ''ValueError'' ''max_workers must be greater than 0''))"
proof -
  have h: "max_workers (config (example_analyzer\<lparr>config := example_config\<lparr>max_workers := 0\<rparr>\<rparr>)) \<le> 0"
    by simp
  show ?thesis
    using h nonpositive_max_workers_rejected [OF h, of healthy]
    by (simp add: healthy_def example_analyzer_def setup_base_configuration_def)
qed

text \<open>
  C3 as stated fails on the class of the error: for \<open>max_workers = 0\<close> it is a
  \<open>ValueError\<close>, not a \<open>ConfigurationError\<close>.
\<close>

theorem rejection_is_a_ValueError:
  "snd (run_security_scans healthy (example_analyzer\<lparr>config := example_config\<lparr>max_workers := 0\<rparr>\<rparr>))
     = Raised (Exn ''ValueError'' ''max_workers must be greater than 0'')
   \<and> exc_class (Exn ''ValueError'' ''max_workers must be greater than 0'') \<noteq> ''ConfigurationError''"
  by (simp add: run_security_scans_def)




subsection \<open>The Java dependency analyzer\<close>






subsection \<open>Compliance score and normalization\<close>

text \<open>
  C4, for the construction modelled from the specification. A \<open>ComplianceResult\<close> built
  from the rule counts has \<open>score = passed_rules / total_rules\<close> exactly when
  \<open>total_rules > 0\<close>, and a score that is not available when \<open>total_rules = 0\<close>: no
  division takes place there.
\<close>

theorem compliance_score_invariant:
  "(0 < n_total \<longrightarrow>
      score (compliance_result fw cs n_passed n_total now) = Some (of_int n_passed / of_int n_total))
   \<and> (n_total = 0 \<longrightarrow> score (compliance_result fw cs n_passed n_total now) = None)
   \<and> passed_rules (compliance_result fw cs n_passed n_total now) = n_passed
   \<and> total_rules (compliance_result fw cs n_passed n_total now) = n_total"
  by (simp add: compliance_result_def)

theorem compliance_score_invariant_witness:
  "score (compliance_result ''cis'' [] 7 10 0) = Some (7 / 10)
   \<and> score (compliance_result ''cis'' [] 0 0 0) = None"
  using compliance_score_invariant [of 10 "''cis''" "[]" 7 0] compliance_score_invariant [of 0 "''cis''" "[]" 0 0]
  by simp


subsection \<open>Aggregation\<close>














subsection \<open>Feature flags\<close>
















end
